theory Spec2Isabelle
  imports Main "HOL-Library.AList"
begin

section \<open>Values, errors and resource options\<close>

text \<open>
  The bindings are dynamically typed: a field annotated \<open>pulumi.Input[str]\<close> receives
  whatever Python value the caller passes. \<open>pyval\<close> keeps the shape of such a value.
\<close>

datatype pyval =
    PyStr string
  | PyInt int
  | PyBool bool
  | PyDict "(string \<times> pyval) list"

text \<open>
  An input is a plain value or an output the host SDK has marked secret.
  \<open>pulumi.Output.secret\<close> turns either into a secret output.
\<close>

datatype pinput = Plain pyval | Secret pyval

fun Output_secret :: "pinput \<Rightarrow> pinput" where
  "Output_secret (Plain v) = Secret v"
| "Output_secret (Secret v) = Secret v"

fun is_secret :: "pinput \<Rightarrow> bool" where
  "is_secret (Plain v) = False"
| "is_secret (Secret v) = True"

text \<open>The shape the schema declares for a \<open>pulumi.Input[str]\<close> field.\<close>

fun is_str :: "pinput \<Rightarrow> bool" where
  "is_str (Plain (PyStr s)) = True"
| "is_str (Secret (PyStr s)) = True"
| "is_str v = False"

text \<open>
  Every exception the bindings raise themselves is a Python \<open>TypeError\<close> with a message;
  \<open>HostError\<close> stands for whatever else the host SDK or the engine reports.
\<close>

datatype error = TypeError string | HostError string

definition missing_required :: "string \<Rightarrow> error" where
  "missing_required k =
     TypeError (''Missing required property '' @ [CHR 0x27] @ k @ [CHR 0x27])"

definition props_without_id :: error where
  "props_without_id = TypeError
     ''__props__ is only valid when passed in combination with a valid opts.id to get an existing resource''"

definition not_resource_options :: error where
  "not_resource_options =
     TypeError ''Expected resource options to be a ResourceOptions instance''"

text \<open>
  The fields of \<open>pulumi.ResourceOptions\<close> that the bindings read or write, and the two
  the generated defaults carry. \<open>ResourceOptions\<close> is the constructor called with no
  argument: every field \<open>None\<close>.
\<close>

record resource_options =
  id_opt :: "string option"
  urn :: "string option"
  additional_secret_outputs :: "string list option"
  version :: "string option"
  plugin_download_url :: "string option"

definition ResourceOptions :: resource_options where
  "ResourceOptions =
     \<lparr>id_opt = None, urn = None, additional_secret_outputs = None,
      version = None, plugin_download_url = None\<rparr>"

text \<open>
  What a caller can pass where options are expected, and what a merge can return:
  \<open>None\<close>, a \<open>ResourceOptions\<close> instance, or some other object.
\<close>

datatype pyopts = PyNone | PyOpts resource_options | PyOther pyval

text \<open>The test \<open>isinstance(opts, pulumi.ResourceOptions)\<close>.\<close>

fun isinstance_ResourceOptions :: "pyopts \<Rightarrow> bool" where
  "isinstance_ResourceOptions (PyOpts v) = True"
| "isinstance_ResourceOptions v = False"

text \<open>Python truthiness of \<open>opts.urn\<close>: \<open>None\<close> and the empty string are false.\<close>

fun truthy :: "string option \<Rightarrow> bool" where
  "truthy None = False"
| "truthy (Some s) = (s \<noteq> [])"

text \<open>
  A property bag is the \<open>__dict__\<close> of an args object: keys in insertion order, each
  bound to a value or to \<open>None\<close>. \<open>d[k] = v\<close> is \<open>AList.update k v d\<close>.
\<close>

type_synonym bag = "(string \<times> pinput option) list"

text \<open>The call \<open>super().__init__(t, name, props, opts)\<close> that registers with the host.\<close>

record reg_call =
  call_type :: string
  call_name :: string
  call_props :: "bag option"
  call_opts :: pyopts

text \<open>
  The collaborators that are not part of the two source files are parameters of the
  model: \<open>pulumi.ResourceOptions.merge\<close> (host SDK),
  \<open>_utilities.get_resource_opts_defaults()\<close> (generated helper) and the base class
  constructor that performs the registration, which runs on the host's state \<open>'st\<close> and
  returns the registered resource \<open>'r\<close> or an error.
\<close>

record ('st, 'r) runtime =
  ResourceOptions_merge :: "pyopts \<Rightarrow> pyopts \<Rightarrow> error + pyopts"
  get_resource_opts_defaults :: pyopts
  register_resource :: "reg_call \<Rightarrow> 'st \<Rightarrow> (error + 'r) \<times> 'st"

section \<open>provider.py\<close>

text \<open>The options built on line 150: \<open>ResourceOptions(additional_secret_outputs=[...])\<close>.\<close>

definition secret_opts :: resource_options where
  "secret_opts =
     ResourceOptions\<lparr>additional_secret_outputs := Some [''pveToken'', ''sshPass'']\<rparr>"

text \<open>
  Lines 130 to 149 of \<open>Provider._internal_init\<close>: the block that decides which property
  bag is registered. With \<open>opts.id\<close> set the caller's \<open>__props__\<close> is kept as it is.
  Otherwise a caller's \<open>__props__\<close> is refused and a fresh bag is filled field by field,
  each check standing before its assignment as in the source.
\<close>

definition Provider_props ::
  "resource_options \<Rightarrow> pinput option \<Rightarrow> pinput option \<Rightarrow> pinput option \<Rightarrow>
   pinput option \<Rightarrow> pinput option \<Rightarrow> bag option \<Rightarrow> error + bag option" where
  "Provider_props opts pve_token pve_url pve_user ssh_pass ssh_user props =
     (if id_opt opts = None then
        if props \<noteq> None then Inl props_without_id
        else if pve_token = None \<and> \<not> truthy (urn opts) then Inl (missing_required ''pve_token'')
        else let p1 = AList.update ''pve_token'' (map_option Output_secret pve_token) [] in
        if pve_url = None \<and> \<not> truthy (urn opts) then Inl (missing_required ''pve_url'')
        else let p2 = AList.update ''pve_url'' pve_url p1 in
        if pve_user = None \<and> \<not> truthy (urn opts) then Inl (missing_required ''pve_user'')
        else let p3 = AList.update ''pve_user'' pve_user p2 in
        if ssh_pass = None \<and> \<not> truthy (urn opts) then Inl (missing_required ''ssh_pass'')
        else let p4 = AList.update ''ssh_pass'' (map_option Output_secret ssh_pass) p3 in
        if ssh_user = None \<and> \<not> truthy (urn opts) then Inl (missing_required ''ssh_user'')
        else Inr (Some (AList.update ''ssh_user'' ssh_user p4))
      else Inr props)"

text \<open>
  \<open>Provider._internal_init\<close>, lines 118 to 156. An exception leaves the host state as
  it was: nothing before the last statement touches the host.
\<close>

definition Provider_internal_init ::
  "('st, 'r) runtime \<Rightarrow> string \<Rightarrow> pyopts \<Rightarrow> pinput option \<Rightarrow> pinput option \<Rightarrow>
   pinput option \<Rightarrow> pinput option \<Rightarrow> pinput option \<Rightarrow> bag option \<Rightarrow>
   'st \<Rightarrow> (error + 'r) \<times> 'st" where
  "Provider_internal_init R resource_name opts pve_token pve_url pve_user ssh_pass ssh_user
     props st =
     (case ResourceOptions_merge R (get_resource_opts_defaults R) opts of
        Inl e \<Rightarrow> (Inl e, st)
      | Inr (PyOpts merged) \<Rightarrow>
          (case Provider_props merged pve_token pve_url pve_user ssh_pass ssh_user props of
             Inl e \<Rightarrow> (Inl e, st)
           | Inr props' \<Rightarrow>
               (case ResourceOptions_merge R (PyOpts merged) (PyOpts secret_opts) of
                  Inl e \<Rightarrow> (Inl e, st)
                | Inr opts' \<Rightarrow>
                    register_resource R
                      \<lparr>call_type = ''pve'', call_name = resource_name,
                       call_props = props', call_opts = opts'\<rparr> st))
      | Inr other \<Rightarrow> (Inl not_resource_options, st))"

section \<open>storage/file.py\<close>

text \<open>Lines 121 to 134 of \<open>File._internal_init\<close>.\<close>

definition File_props ::
  "resource_options \<Rightarrow> pinput option \<Rightarrow> pinput option \<Rightarrow> pinput option \<Rightarrow>
   bag option \<Rightarrow> error + bag option" where
  "File_props opts content_type datastore_id source_raw props =
     (if id_opt opts = None then
        if props \<noteq> None then Inl props_without_id
        else if content_type = None \<and> \<not> truthy (urn opts)
          then Inl (missing_required ''content_type'')
        else let p1 = AList.update ''content_type'' content_type [] in
        if datastore_id = None \<and> \<not> truthy (urn opts)
          then Inl (missing_required ''datastore_id'')
        else let p2 = AList.update ''datastore_id'' datastore_id p1 in
        if source_raw = None \<and> \<not> truthy (urn opts)
          then Inl (missing_required ''source_raw'')
        else Inr (Some (AList.update ''source_raw'' source_raw p2))
      else Inr props)"

text \<open>\<open>File._internal_init\<close>, lines 111 to 139.\<close>

definition File_internal_init ::
  "('st, 'r) runtime \<Rightarrow> string \<Rightarrow> pyopts \<Rightarrow> pinput option \<Rightarrow> pinput option \<Rightarrow>
   pinput option \<Rightarrow> bag option \<Rightarrow> 'st \<Rightarrow> (error + 'r) \<times> 'st" where
  "File_internal_init R resource_name opts content_type datastore_id source_raw props st =
     (case ResourceOptions_merge R (get_resource_opts_defaults R) opts of
        Inl e \<Rightarrow> (Inl e, st)
      | Inr (PyOpts merged) \<Rightarrow>
          (case File_props merged content_type datastore_id source_raw props of
             Inl e \<Rightarrow> (Inl e, st)
           | Inr props' \<Rightarrow>
               register_resource R
                 \<lparr>call_type = ''pve:storage:File'', call_name = resource_name,
                  call_props = props', call_opts = PyOpts merged\<rparr> st)
      | Inr other \<Rightarrow> (Inl not_resource_options, st))"

text \<open>
  An args object is an instance of \<open>FileArgs\<close>. Its constructor, lines 23 to 35, sets
  the three properties and nothing else, so its \<open>__dict__\<close> has exactly these keys.
\<close>

record FileArgs =
  args_content_type :: "pinput option"
  args_datastore_id :: "pinput option"
  args_source_raw :: "pinput option"

text \<open>
  \<open>File.__init__\<close>, lines 104 to 109, for a call that passes its arguments by keyword
  (the first overload). \<open>_utilities.get_resource_args_opts\<close> is not part of the two
  source files, so it is the parameter \<open>G\<close>: from the keyword arguments it returns the
  args object, if it found one, and the options. An args object is spread into keyword
  arguments (\<open>**resource_args.__dict__\<close>), which binds the three field parameters and
  leaves \<open>__props__\<close> at its default \<open>None\<close>.
\<close>

record file_kwargs =
  kw_opts :: pyopts
  kw_content_type :: "pinput option"
  kw_datastore_id :: "pinput option"
  kw_source_raw :: "pinput option"
  kw_props :: "bag option"

definition File_init ::
  "(file_kwargs \<Rightarrow> FileArgs option \<times> pyopts) \<Rightarrow> ('st, 'r) runtime \<Rightarrow> string \<Rightarrow>
   file_kwargs \<Rightarrow> 'st \<Rightarrow> (error + 'r) \<times> 'st" where
  "File_init G R resource_name kwargs st =
     (case G kwargs of
        (Some resource_args, opts) \<Rightarrow>
          File_internal_init R resource_name opts
            (args_content_type resource_args) (args_datastore_id resource_args)
            (args_source_raw resource_args) None st
      | (None, opts) \<Rightarrow>
          File_internal_init R resource_name (kw_opts kwargs) (kw_content_type kwargs)
            (kw_datastore_id kwargs) (kw_source_raw kwargs) (kw_props kwargs) st)"

text \<open>\<open>File.get\<close>, lines 141 to 160.\<close>

definition File_get ::
  "(file_kwargs \<Rightarrow> FileArgs option \<times> pyopts) \<Rightarrow> ('st, 'r) runtime \<Rightarrow> string \<Rightarrow> string \<Rightarrow>
   pyopts \<Rightarrow> 'st \<Rightarrow> (error + 'r) \<times> 'st" where
  "File_get G R resource_name ident opts st =
     (case ResourceOptions_merge R opts (PyOpts (ResourceOptions\<lparr>id_opt := Some ident\<rparr>)) of
        Inl e \<Rightarrow> (Inl e, st)
      | Inr opts' \<Rightarrow>
          let p1 = AList.update ''content_type'' None [];
              p2 = AList.update ''datastore_id'' None p1;
              p3 = AList.update ''source_raw'' None p2
          in File_init G R resource_name
               \<lparr>kw_opts = opts', kw_content_type = None, kw_datastore_id = None,
                kw_source_raw = None, kw_props = Some p3\<rparr> st)"

text \<open>
  The members a constructed \<open>File\<close> exposes, lines 162 to 184: three read-only
  properties, each \<open>pulumi.get(self, name)\<close>, which reads the object's property
  dictionary. A call returns the value read and the object after the call.
\<close>

datatype File_member = Get_content_type | Get_datastore_id | Get_source_raw

definition pulumi_get :: "bag \<Rightarrow> string \<Rightarrow> pinput option" where
  "pulumi_get d k = (case map_of d k of None \<Rightarrow> None | Some v \<Rightarrow> v)"

fun File_member_call :: "File_member \<Rightarrow> bag \<Rightarrow> pinput option \<times> bag" where
  "File_member_call Get_content_type self = (pulumi_get self ''content_type'', self)"
| "File_member_call Get_datastore_id self = (pulumi_get self ''datastore_id'', self)"
| "File_member_call Get_source_raw self = (pulumi_get self ''source_raw'', self)"

section \<open>A host to run the bindings against\<close>

text \<open>
  To evaluate the bindings on concrete inputs the parameters need values. \<open>sdk_merge\<close>
  follows the documented rule of \<open>pulumi.ResourceOptions.merge\<close>: \<open>None\<close> counts as empty
  options, any other non-options argument is a \<open>TypeError\<close>, a scalar field of the second
  argument wins unless it is \<open>None\<close>, and list fields are concatenated.
\<close>

fun merge_lists :: "'a list option \<Rightarrow> 'a list option \<Rightarrow> 'a list option" where
  "merge_lists None source = source"
| "merge_lists (Some d) None = Some d"
| "merge_lists (Some d) (Some s) = Some (d @ s)"

fun override :: "'a option \<Rightarrow> 'a option \<Rightarrow> 'a option" where
  "override dest None = dest"
| "override dest (Some x) = Some x"

definition merge_options :: "resource_options \<Rightarrow> resource_options \<Rightarrow> resource_options" where
  "merge_options dest source =
     \<lparr>id_opt = override (id_opt dest) (id_opt source),
      urn = override (urn dest) (urn source),
      additional_secret_outputs =
        merge_lists (additional_secret_outputs dest) (additional_secret_outputs source),
      version = override (version dest) (version source),
      plugin_download_url = override (plugin_download_url dest) (plugin_download_url source)\<rparr>"

fun or_empty :: "pyopts \<Rightarrow> pyopts" where
  "or_empty PyNone = PyOpts ResourceOptions"
| "or_empty v = v"

fun sdk_merge' :: "pyopts \<Rightarrow> pyopts \<Rightarrow> error + pyopts" where
  "sdk_merge' (PyOpts d) (PyOpts s) = Inr (PyOpts (merge_options d s))"
| "sdk_merge' (PyOpts d) other = Inl (TypeError ''Expected opts2 to be a ResourceOptions instance'')"
| "sdk_merge' other s = Inl (TypeError ''Expected opts1 to be a ResourceOptions instance'')"

definition sdk_merge :: "pyopts \<Rightarrow> pyopts \<Rightarrow> error + pyopts" where
  "sdk_merge opts1 opts2 = sdk_merge' (or_empty opts1) (or_empty opts2)"

text \<open>
  The recording host accepts every registration: it appends the call to its log and
  returns it. An error in a run against it comes from the lines before the call.
\<close>

definition record_call :: "reg_call \<Rightarrow> reg_call list \<Rightarrow> (error + reg_call) \<times> reg_call list" where
  "record_call c log = (Inr c, log @ [c])"

definition recording :: "('st, 'r) runtime \<Rightarrow> (reg_call list, reg_call) runtime" where
  "recording R =
     \<lparr>ResourceOptions_merge = ResourceOptions_merge R,
      get_resource_opts_defaults = get_resource_opts_defaults R,
      register_resource = record_call\<rparr>"

definition sdk_runtime :: "(reg_call list, reg_call) runtime" where
  "sdk_runtime =
     \<lparr>ResourceOptions_merge = sdk_merge,
      get_resource_opts_defaults = PyOpts (ResourceOptions\<lparr>version := Some ''0.0.1''\<rparr>),
      register_resource = record_call\<rparr>"

text \<open>
  A stand-in for \<open>get_resource_args_opts\<close> on keyword calls: no args object is among
  the keywords the model carries, so it returns none, and the \<open>opts\<close> keyword.
\<close>

definition keyword_args_opts :: "file_kwargs \<Rightarrow> FileArgs option \<times> pyopts" where
  "keyword_args_opts kwargs = (None, kw_opts kwargs)"

text \<open>
  A secret-marked key holds no plaintext in a bag when it is unbound, bound to \<open>None\<close>
  or bound to a secret output.
\<close>

fun plaintext_at :: "bag \<Rightarrow> string \<Rightarrow> bool" where
  "plaintext_at b k = (case map_of b k of Some (Some (Plain v)) \<Rightarrow> True | _ \<Rightarrow> False)"

section \<open>The reconciliation contract\<close>

text \<open>
  Modelled from the spec: the Reconciliation Adapter of section 4.1, which is not part
  of the two source files. Given the desired Input Model and the optional existing
  Output Model it yields Create when there is no existing model, Replace when the field
  marked immutable (\<open>source_raw\<close>) differs, Update when only mutable fields differ, and
  NoChange when all compared fields are equal.
\<close>

record source_raw_model =
  spec_filename :: string
  spec_data :: string

record file_model =
  spec_content_type :: string
  spec_datastore_id :: string
  spec_source_raw :: source_raw_model

datatype action = Create | Update | Replace | NoChange

definition reconcile :: "file_model \<Rightarrow> file_model option \<Rightarrow> action" where
  "reconcile desired existing =
     (case existing of
        None \<Rightarrow> Create
      | Some observed \<Rightarrow>
          if spec_source_raw desired \<noteq> spec_source_raw observed then Replace
          else if spec_content_type desired \<noteq> spec_content_type observed
                  \<or> spec_datastore_id desired \<noteq> spec_datastore_id observed then Update
          else NoChange)"

section \<open>Missing required properties\<close>

lemma Provider_props_missing:
  assumes "id_opt opts = None" and "\<not> truthy (urn opts)"
  shows "pve_token = None \<Longrightarrow>
           Provider_props opts pve_token pve_url pve_user ssh_pass ssh_user None
             = Inl (missing_required ''pve_token'')"
    and "pve_token \<noteq> None \<Longrightarrow> pve_url = None \<Longrightarrow>
           Provider_props opts pve_token pve_url pve_user ssh_pass ssh_user None
             = Inl (missing_required ''pve_url'')"
    and "pve_token \<noteq> None \<Longrightarrow> pve_url \<noteq> None \<Longrightarrow> pve_user = None \<Longrightarrow>
           Provider_props opts pve_token pve_url pve_user ssh_pass ssh_user None
             = Inl (missing_required ''pve_user'')"
    and "pve_token \<noteq> None \<Longrightarrow> pve_url \<noteq> None \<Longrightarrow> pve_user \<noteq> None \<Longrightarrow> ssh_pass = None \<Longrightarrow>
           Provider_props opts pve_token pve_url pve_user ssh_pass ssh_user None
             = Inl (missing_required ''ssh_pass'')"
    and "pve_token \<noteq> None \<Longrightarrow> pve_url \<noteq> None \<Longrightarrow> pve_user \<noteq> None \<Longrightarrow> ssh_pass \<noteq> None \<Longrightarrow>
         ssh_user = None \<Longrightarrow>
           Provider_props opts pve_token pve_url pve_user ssh_pass ssh_user None
             = Inl (missing_required ''ssh_user'')"
  using assms by (auto simp add: Provider_props_def Let_def)

lemma File_props_missing:
  assumes "id_opt opts = None" and "\<not> truthy (urn opts)"
  shows "content_type = None \<Longrightarrow>
           File_props opts content_type datastore_id source_raw None
             = Inl (missing_required ''content_type'')"
    and "content_type \<noteq> None \<Longrightarrow> datastore_id = None \<Longrightarrow>
           File_props opts content_type datastore_id source_raw None
             = Inl (missing_required ''datastore_id'')"
    and "content_type \<noteq> None \<Longrightarrow> datastore_id \<noteq> None \<Longrightarrow> source_raw = None \<Longrightarrow>
           File_props opts content_type datastore_id source_raw None
             = Inl (missing_required ''source_raw'')"
  using assms by (auto simp add: File_props_def Let_def)


lemma sdk_merge_defaults_None:
  "ResourceOptions_merge sdk_runtime (get_resource_opts_defaults sdk_runtime) PyNone
     = Inr (PyOpts (ResourceOptions\<lparr>version := Some ''0.0.1''\<rparr>))"
  by (simp add: sdk_runtime_def sdk_merge_def merge_options_def ResourceOptions_def)

lemma sdk_merge_defaults_opts:
  "ResourceOptions_merge sdk_runtime (get_resource_opts_defaults sdk_runtime) (PyOpts given)
     = Inr (PyOpts (merge_options (ResourceOptions\<lparr>version := Some ''0.0.1''\<rparr>) given))"
  by (simp add: sdk_runtime_def sdk_merge_def)

lemma sdk_merge_secret_opts:
  "ResourceOptions_merge sdk_runtime (PyOpts given) (PyOpts secret_opts)
     = Inr (PyOpts (merge_options given secret_opts))"
  by (simp add: sdk_runtime_def sdk_merge_def)

lemma sdk_register:
  "register_resource sdk_runtime c log = (Inr c, log @ [c])"
  by (simp add: sdk_runtime_def record_call_def)

text \<open>
  C2. At Create time (the merged options carry no id and no urn, no \<open>__props__\<close> is
  passed) a required field that is \<open>None\<close> makes the construction fail with
  \<open>Missing required property\<close> naming that field, the first absent one in declaration
  order when several are absent. The result is the error with the host state as it
  was: the registration call is not reached. This holds for the five fields of the
  Provider and the three of the File.
\<close>

theorem missing_required_property_rejected:
  assumes merged: "ResourceOptions_merge R (get_resource_opts_defaults R) opts = Inr (PyOpts merged)"
    and create: "id_opt merged = None" "\<not> truthy (urn merged)"
  shows
    "(pve_token = None \<longrightarrow>
        Provider_internal_init R n opts pve_token pve_url pve_user ssh_pass ssh_user None st
          = (Inl (missing_required ''pve_token''), st))
   \<and> (pve_token \<noteq> None \<and> pve_url = None \<longrightarrow>
        Provider_internal_init R n opts pve_token pve_url pve_user ssh_pass ssh_user None st
          = (Inl (missing_required ''pve_url''), st))
   \<and> (pve_token \<noteq> None \<and> pve_url \<noteq> None \<and> pve_user = None \<longrightarrow>
        Provider_internal_init R n opts pve_token pve_url pve_user ssh_pass ssh_user None st
          = (Inl (missing_required ''pve_user''), st))
   \<and> (pve_token \<noteq> None \<and> pve_url \<noteq> None \<and> pve_user \<noteq> None \<and> ssh_pass = None \<longrightarrow>
        Provider_internal_init R n opts pve_token pve_url pve_user ssh_pass ssh_user None st
          = (Inl (missing_required ''ssh_pass''), st))
   \<and> (pve_token \<noteq> None \<and> pve_url \<noteq> None \<and> pve_user \<noteq> None \<and> ssh_pass \<noteq> None
        \<and> ssh_user = None \<longrightarrow>
        Provider_internal_init R n opts pve_token pve_url pve_user ssh_pass ssh_user None st
          = (Inl (missing_required ''ssh_user''), st))
   \<and> (content_type = None \<longrightarrow>
        File_internal_init R n opts content_type datastore_id source_raw None st
          = (Inl (missing_required ''content_type''), st))
   \<and> (content_type \<noteq> None \<and> datastore_id = None \<longrightarrow>
        File_internal_init R n opts content_type datastore_id source_raw None st
          = (Inl (missing_required ''datastore_id''), st))
   \<and> (content_type \<noteq> None \<and> datastore_id \<noteq> None \<and> source_raw = None \<longrightarrow>
        File_internal_init R n opts content_type datastore_id source_raw None st
          = (Inl (missing_required ''source_raw''), st))"
proof -
  have P: "Provider_internal_init R n opts pve_token pve_url pve_user ssh_pass ssh_user None st
             = (Inl e, st)"
    if "Provider_props merged pve_token pve_url pve_user ssh_pass ssh_user None = Inl e" for e
    using merged that by (simp add: Provider_internal_init_def)
  have F: "File_internal_init R n opts content_type datastore_id source_raw None st = (Inl e, st)"
    if "File_props merged content_type datastore_id source_raw None = Inl e" for e
    using merged that by (simp add: File_internal_init_def)
  show ?thesis
    by (intro conjI impI; (elim conjE)?; rule P F;
        rule Provider_props_missing [OF create] File_props_missing [OF create]; assumption)
qed

theorem missing_required_property_rejected_witness:
  "Provider_internal_init sdk_runtime ''x'' PyNone (Some (Plain (PyStr ''token''))) None
     (Some (Plain (PyStr ''root''))) (Some (Plain (PyStr ''pw''))) (Some (Plain (PyStr ''admin'')))
     None [] = (Inl (missing_required ''pve_url''), [])
   \<and> File_internal_init sdk_runtime ''x'' PyNone (Some (Plain (PyStr ''snippets''))) None
     (Some (Plain (PyDict [(''filename'', PyStr ''a.yaml''), (''data'', PyStr ''x'')]))) None []
     = (Inl (missing_required ''datastore_id''), [])"
  using missing_required_property_rejected
    [OF sdk_merge_defaults_None,
     where pve_token = "Some (Plain (PyStr ''token''))" and pve_url = None
       and content_type = "Some (Plain (PyStr ''snippets''))" and datastore_id = None
       and n = "''x''" and st = "[]"]
  by (simp add: ResourceOptions_def)

text \<open>
  C8. With a urn in the merged options (and no id) none of the required-property checks
  fires: the construction reaches the registration call whatever fields are absent, in
  particular with every declared field \<open>None\<close>, for the Provider and for the File.
\<close>

theorem urn_skips_required_checks:
  assumes merged: "ResourceOptions_merge R (get_resource_opts_defaults R) opts = Inr (PyOpts merged)"
    and no_id: "id_opt merged = None"
    and has_urn: "truthy (urn merged)"
    and merge2: "ResourceOptions_merge R (PyOpts merged) (PyOpts secret_opts) = Inr opts'"
  shows
    "Provider_internal_init R n opts None None None None None None st
       = register_resource R
           \<lparr>call_type = ''pve'', call_name = n,
            call_props = Some [(''pve_token'', None), (''pve_url'', None), (''pve_user'', None),
                               (''ssh_pass'', None), (''ssh_user'', None)],
            call_opts = opts'\<rparr> st
     \<and> File_internal_init R n opts None None None None st
       = register_resource R
           \<lparr>call_type = ''pve:storage:File'', call_name = n,
            call_props = Some [(''content_type'', None), (''datastore_id'', None),
                               (''source_raw'', None)],
            call_opts = PyOpts merged\<rparr> st"
  using assms
  by (simp add: Provider_internal_init_def Provider_props_def File_internal_init_def
      File_props_def)

theorem urn_skips_required_checks_witness:
  "Provider_internal_init sdk_runtime ''x''
     (PyOpts (ResourceOptions\<lparr>urn := Some ''urn:pulumi:dev::proj::pulumi:providers:pve::x''\<rparr>))
     None None None None None None []
     = (let c = \<lparr>call_type = ''pve'', call_name = ''x'',
                 call_props = Some [(''pve_token'', None), (''pve_url'', None),
                                    (''pve_user'', None), (''ssh_pass'', None),
                                    (''ssh_user'', None)],
                 call_opts = PyOpts
                   \<lparr>id_opt = None,
                    urn = Some ''urn:pulumi:dev::proj::pulumi:providers:pve::x'',
                    additional_secret_outputs = Some [''pveToken'', ''sshPass''],
                    version = Some ''0.0.1'', plugin_download_url = None\<rparr>\<rparr>
        in (Inr c, [c]))
   \<and> File_internal_init sdk_runtime ''x''
     (PyOpts (ResourceOptions\<lparr>urn := Some ''urn:pulumi:dev::proj::pulumi:providers:pve::x''\<rparr>))
     None None None None []
     = (let c = \<lparr>call_type = ''pve:storage:File'', call_name = ''x'',
                 call_props = Some [(''content_type'', None), (''datastore_id'', None),
                                    (''source_raw'', None)],
                 call_opts = PyOpts
                   \<lparr>id_opt = None,
                    urn = Some ''urn:pulumi:dev::proj::pulumi:providers:pve::x'',
                    additional_secret_outputs = None,
                    version = Some ''0.0.1'', plugin_download_url = None\<rparr>\<rparr>
        in (Inr c, [c]))"
  using urn_skips_required_checks
    [OF sdk_merge_defaults_opts
          [where given = "ResourceOptions\<lparr>urn := Some ''urn:pulumi:dev::proj::pulumi:providers:pve::x''\<rparr>"]
        _ _ sdk_merge_secret_opts, where n = "''x''" and st = "[]"]
  by (simp add: merge_options_def ResourceOptions_def secret_opts_def sdk_register Let_def)

text \<open>
  C9. Without an id in the merged options a caller's \<open>__props__\<close> is refused with the
  \<open>TypeError\<close> of lines 131 and 132, whatever the fields are, and the host is not
  called. With an id the \<open>__props__\<close> argument, whatever it holds, is the property bag
  of the registration call: no field check and no secret wrapping is applied to it.
\<close>

theorem props_only_with_id:
  assumes merged: "ResourceOptions_merge R (get_resource_opts_defaults R) opts = Inr (PyOpts merged)"
    and merge2: "ResourceOptions_merge R (PyOpts merged) (PyOpts secret_opts) = Inr opts'"
  shows
    "(id_opt merged = None \<longrightarrow>
        Provider_internal_init R n opts pve_token pve_url pve_user ssh_pass ssh_user (Some p) st
          = (Inl props_without_id, st)
      \<and> File_internal_init R n opts content_type datastore_id source_raw (Some p) st
          = (Inl props_without_id, st))
   \<and> (id_opt merged \<noteq> None \<longrightarrow>
        Provider_internal_init R n opts pve_token pve_url pve_user ssh_pass ssh_user props st
          = register_resource R
              \<lparr>call_type = ''pve'', call_name = n, call_props = props, call_opts = opts'\<rparr> st
      \<and> File_internal_init R n opts content_type datastore_id source_raw props st
          = register_resource R
              \<lparr>call_type = ''pve:storage:File'', call_name = n, call_props = props,
               call_opts = PyOpts merged\<rparr> st)"
  using assms
  by (simp add: Provider_internal_init_def Provider_props_def File_internal_init_def
      File_props_def)

theorem props_only_with_id_witness:
  "Provider_internal_init sdk_runtime ''x'' PyNone None None None None None
     (Some [(''pve_token'', Some (Plain (PyStr ''token'')))]) []
     = (Inl props_without_id, [])
   \<and> File_internal_init sdk_runtime ''x'' PyNone None None None
     (Some [(''pve_token'', Some (Plain (PyStr ''token'')))]) []
     = (Inl props_without_id, [])
   \<and> fst (Provider_internal_init sdk_runtime ''x''
       (PyOpts (ResourceOptions\<lparr>id_opt := Some ''pve-1''\<rparr>)) None None None None None
       (Some [(''pve_token'', Some (Plain (PyStr ''token'')))]) [])
     = Inr \<lparr>call_type = ''pve'', call_name = ''x'',
            call_props = Some [(''pve_token'', Some (Plain (PyStr ''token'')))],
            call_opts = PyOpts
              \<lparr>id_opt = Some ''pve-1'', urn = None,
               additional_secret_outputs = Some [''pveToken'', ''sshPass''],
               version = Some ''0.0.1'', plugin_download_url = None\<rparr>\<rparr>"
  using props_only_with_id
    [OF sdk_merge_defaults_None sdk_merge_secret_opts, where n = "''x''" and st = "[]"
      and p = "[(''pve_token'', Some (Plain (PyStr ''token'')))]"
      and pve_token = None and pve_url = None and pve_user = None and ssh_pass = None
      and ssh_user = None and content_type = None and datastore_id = None
      and source_raw = None]
    props_only_with_id
    [OF sdk_merge_defaults_opts [where given = "ResourceOptions\<lparr>id_opt := Some ''pve-1''\<rparr>"]
        sdk_merge_secret_opts, where n = "''x''" and st = "[]"
      and props = "Some [(''pve_token'', Some (Plain (PyStr ''token'')))]"
      and pve_token = None and pve_url = None and pve_user = None and ssh_pass = None
      and ssh_user = None]
  by (simp add: merge_options_def ResourceOptions_def secret_opts_def sdk_register)

text \<open>
  C4. With no existing resource to refer to (the merged options carry no id and no
  \<open>__props__\<close> is passed) and all required fields present, the construction takes the
  create path whatever the field values are: it builds a fresh property bag from the
  inputs and hands it to the registration call, for the Provider and for the File.
\<close>

theorem create_registers_fresh_bag:
  assumes merged: "ResourceOptions_merge R (get_resource_opts_defaults R) opts = Inr (PyOpts merged)"
    and no_id: "id_opt merged = None"
    and merge2: "ResourceOptions_merge R (PyOpts merged) (PyOpts secret_opts) = Inr opts'"
  shows
    "Provider_internal_init R n opts (Some pve_token) (Some pve_url) (Some pve_user)
       (Some ssh_pass) (Some ssh_user) None st
       = register_resource R
           \<lparr>call_type = ''pve'', call_name = n,
            call_props = Some [(''pve_token'', Some (Output_secret pve_token)),
                               (''pve_url'', Some pve_url), (''pve_user'', Some pve_user),
                               (''ssh_pass'', Some (Output_secret ssh_pass)),
                               (''ssh_user'', Some ssh_user)],
            call_opts = opts'\<rparr> st
     \<and> File_internal_init R n opts (Some content_type) (Some datastore_id) (Some source_raw)
       None st
       = register_resource R
           \<lparr>call_type = ''pve:storage:File'', call_name = n,
            call_props = Some [(''content_type'', Some content_type),
                               (''datastore_id'', Some datastore_id),
                               (''source_raw'', Some source_raw)],
            call_opts = PyOpts merged\<rparr> st"
  using assms
  by (simp add: Provider_internal_init_def Provider_props_def File_internal_init_def
      File_props_def)

theorem create_registers_fresh_bag_witness:
  "File_internal_init sdk_runtime ''a'' PyNone (Some (Plain (PyStr ''snippets'')))
     (Some (Plain (PyStr ''ceph-ha'')))
     (Some (Plain (PyDict [(''filename'', PyStr ''a.yaml''), (''data'', PyStr ''x'')]))) None []
     = (let c = \<lparr>call_type = ''pve:storage:File'', call_name = ''a'',
                 call_props = Some
                   [(''content_type'', Some (Plain (PyStr ''snippets''))),
                    (''datastore_id'', Some (Plain (PyStr ''ceph-ha''))),
                    (''source_raw'', Some (Plain (PyDict
                        [(''filename'', PyStr ''a.yaml''), (''data'', PyStr ''x'')])))],
                 call_opts = PyOpts (ResourceOptions\<lparr>version := Some ''0.0.1''\<rparr>)\<rparr>
        in (Inr c, [c]))
   \<and> snd (Provider_internal_init sdk_runtime ''a'' PyNone (Some (Plain (PyStr ''token'')))
       (Some (Plain (PyStr ''https://pve:8006''))) (Some (Plain (PyStr ''root@pam'')))
       (Some (Secret (PyStr ''pw''))) (Some (Plain (PyStr ''admin''))) None [])
     = [\<lparr>call_type = ''pve'', call_name = ''a'',
         call_props = Some
           [(''pve_token'', Some (Secret (PyStr ''token''))),
            (''pve_url'', Some (Plain (PyStr ''https://pve:8006''))),
            (''pve_user'', Some (Plain (PyStr ''root@pam''))),
            (''ssh_pass'', Some (Secret (PyStr ''pw''))),
            (''ssh_user'', Some (Plain (PyStr ''admin'')))],
         call_opts = PyOpts
           (ResourceOptions\<lparr>additional_secret_outputs := Some [''pveToken'', ''sshPass''],
              version := Some ''0.0.1''\<rparr>)\<rparr>]"
  using create_registers_fresh_bag
    [OF sdk_merge_defaults_None _ sdk_merge_secret_opts, where n = "''a''" and st = "[]"
      and content_type = "Plain (PyStr ''snippets'')" and datastore_id = "Plain (PyStr ''ceph-ha'')"
      and source_raw = "Plain (PyDict [(''filename'', PyStr ''a.yaml''), (''data'', PyStr ''x'')])"
      and pve_token = "Plain (PyStr ''token'')" and pve_url = "Plain (PyStr ''https://pve:8006'')"
      and pve_user = "Plain (PyStr ''root@pam'')" and ssh_pass = "Secret (PyStr ''pw'')"
      and ssh_user = "Plain (PyStr ''admin'')"]
  by (simp add: merge_options_def ResourceOptions_def secret_opts_def sdk_register Let_def)

text \<open>
  C1. On the create path of the Provider (no id and no urn in the merged options, no
  \<open>__props__\<close>) the property bag handed to the registration call binds \<open>pve_token\<close> and
  \<open>ssh_pass\<close> to the results of \<open>Output.secret\<close> and \<open>pve_url\<close>, \<open>pve_user\<close>, \<open>ssh_user\<close> to
  the inputs as given. No secret-marked key holds a plaintext value in it. When a field
  is absent no bag is handed over at all: the construction ends in the
  missing-property error with the host untouched.
\<close>

theorem Provider_create_wraps_secrets:
  assumes merged: "ResourceOptions_merge R (get_resource_opts_defaults R) opts = Inr (PyOpts merged)"
    and create: "id_opt merged = None" "\<not> truthy (urn merged)"
    and merge2: "ResourceOptions_merge R (PyOpts merged) (PyOpts secret_opts) = Inr opts'"
  shows
    "(let b = [(''pve_token'', map_option Output_secret pve_token), (''pve_url'', pve_url),
               (''pve_user'', pve_user), (''ssh_pass'', map_option Output_secret ssh_pass),
               (''ssh_user'', ssh_user)]
      in (if pve_token \<noteq> None \<and> pve_url \<noteq> None \<and> pve_user \<noteq> None \<and> ssh_pass \<noteq> None
             \<and> ssh_user \<noteq> None
          then Provider_internal_init R n opts pve_token pve_url pve_user ssh_pass ssh_user
                 None st
               = register_resource R
                   \<lparr>call_type = ''pve'', call_name = n, call_props = Some b,
                    call_opts = opts'\<rparr> st
          else (\<exists>k. Provider_internal_init R n opts pve_token pve_url pve_user ssh_pass
                       ssh_user None st = (Inl (missing_required k), st)))
         \<and> \<not> plaintext_at b ''pve_token'' \<and> \<not> plaintext_at b ''ssh_pass''
         \<and> map_of b ''pve_token'' = Some (map_option Output_secret pve_token)
         \<and> map_of b ''ssh_pass'' = Some (map_option Output_secret ssh_pass)
         \<and> (\<forall>v. is_secret (Output_secret v))
         \<and> map_of b ''pve_url'' = Some pve_url \<and> map_of b ''pve_user'' = Some pve_user
         \<and> map_of b ''ssh_user'' = Some ssh_user)"
proof -
  have wrapped: "is_secret (Output_secret v)" for v
    by (cases v) simp_all
  have no_plain: "map_option Output_secret x \<noteq> Some (Plain v)" for x v
  proof (cases x)
    case None
    then show ?thesis by simp
  next
    case (Some y)
    then show ?thesis by (cases y) simp_all
  qed
  have run: "Provider_internal_init R n opts pve_token pve_url pve_user ssh_pass ssh_user None st
      = (case Provider_props merged pve_token pve_url pve_user ssh_pass ssh_user None of
           Inl e \<Rightarrow> (Inl e, st)
         | Inr props' \<Rightarrow>
             register_resource R
               \<lparr>call_type = ''pve'', call_name = n, call_props = props', call_opts = opts'\<rparr> st)"
    using merged merge2 by (simp add: Provider_internal_init_def split: sum.splits)
  have present:
    "Provider_props merged pve_token pve_url pve_user ssh_pass ssh_user None
       = Inr (Some [(''pve_token'', map_option Output_secret pve_token),
                    (''pve_url'', pve_url), (''pve_user'', pve_user),
                    (''ssh_pass'', map_option Output_secret ssh_pass),
                    (''ssh_user'', ssh_user)])"
    if "pve_token \<noteq> None" "pve_url \<noteq> None" "pve_user \<noteq> None" "ssh_pass \<noteq> None"
       "ssh_user \<noteq> None"
    using create that by (auto simp add: Provider_props_def)
  have absent:
    "\<exists>k. Provider_props merged pve_token pve_url pve_user ssh_pass ssh_user None
           = Inl (missing_required k)"
    if "\<not> (pve_token \<noteq> None \<and> pve_url \<noteq> None \<and> pve_user \<noteq> None \<and> ssh_pass \<noteq> None
             \<and> ssh_user \<noteq> None)"
    using create that by (auto simp add: Provider_props_def)
  have secret_keys:
    "\<not> plaintext_at [(''pve_token'', map_option Output_secret pve_token), (''pve_url'', pve_url),
               (''pve_user'', pve_user), (''ssh_pass'', map_option Output_secret ssh_pass),
               (''ssh_user'', ssh_user)] ''pve_token''"
    "\<not> plaintext_at [(''pve_token'', map_option Output_secret pve_token), (''pve_url'', pve_url),
               (''pve_user'', pve_user), (''ssh_pass'', map_option Output_secret ssh_pass),
               (''ssh_user'', ssh_user)] ''ssh_pass''"
    using no_plain by (auto split: option.splits pinput.splits)
  have keys:
    "map_of [(''pve_token'', map_option Output_secret pve_token), (''pve_url'', pve_url),
             (''pve_user'', pve_user), (''ssh_pass'', map_option Output_secret ssh_pass),
             (''ssh_user'', ssh_user)] ''pve_token''
       = Some (map_option Output_secret pve_token)"
    "map_of [(''pve_token'', map_option Output_secret pve_token), (''pve_url'', pve_url),
             (''pve_user'', pve_user), (''ssh_pass'', map_option Output_secret ssh_pass),
             (''ssh_user'', ssh_user)] ''ssh_pass''
       = Some (map_option Output_secret ssh_pass)"
    "map_of [(''pve_token'', map_option Output_secret pve_token), (''pve_url'', pve_url),
             (''pve_user'', pve_user), (''ssh_pass'', map_option Output_secret ssh_pass),
             (''ssh_user'', ssh_user)] ''pve_url'' = Some pve_url"
    "map_of [(''pve_token'', map_option Output_secret pve_token), (''pve_url'', pve_url),
             (''pve_user'', pve_user), (''ssh_pass'', map_option Output_secret ssh_pass),
             (''ssh_user'', ssh_user)] ''pve_user'' = Some pve_user"
    "map_of [(''pve_token'', map_option Output_secret pve_token), (''pve_url'', pve_url),
             (''pve_user'', pve_user), (''ssh_pass'', map_option Output_secret ssh_pass),
             (''ssh_user'', ssh_user)] ''ssh_user'' = Some ssh_user"
    by simp_all
  have outcome:
    "if pve_token \<noteq> None \<and> pve_url \<noteq> None \<and> pve_user \<noteq> None \<and> ssh_pass \<noteq> None
        \<and> ssh_user \<noteq> None
     then Provider_internal_init R n opts pve_token pve_url pve_user ssh_pass ssh_user None st
          = register_resource R
              \<lparr>call_type = ''pve'', call_name = n,
               call_props = Some [(''pve_token'', map_option Output_secret pve_token),
                                  (''pve_url'', pve_url), (''pve_user'', pve_user),
                                  (''ssh_pass'', map_option Output_secret ssh_pass),
                                  (''ssh_user'', ssh_user)],
               call_opts = opts'\<rparr> st
     else (\<exists>k. Provider_internal_init R n opts pve_token pve_url pve_user ssh_pass
                  ssh_user None st = (Inl (missing_required k), st))"
  proof (cases "pve_token \<noteq> None \<and> pve_url \<noteq> None \<and> pve_user \<noteq> None \<and> ssh_pass \<noteq> None
                  \<and> ssh_user \<noteq> None")
    case True
    then have "Provider_props merged pve_token pve_url pve_user ssh_pass ssh_user None
       = Inr (Some [(''pve_token'', map_option Output_secret pve_token),
                    (''pve_url'', pve_url), (''pve_user'', pve_user),
                    (''ssh_pass'', map_option Output_secret ssh_pass),
                    (''ssh_user'', ssh_user)])"
      by (intro present) simp_all
    then have "Provider_internal_init R n opts pve_token pve_url pve_user ssh_pass ssh_user
                 None st
          = register_resource R
              \<lparr>call_type = ''pve'', call_name = n,
               call_props = Some [(''pve_token'', map_option Output_secret pve_token),
                                  (''pve_url'', pve_url), (''pve_user'', pve_user),
                                  (''ssh_pass'', map_option Output_secret ssh_pass),
                                  (''ssh_user'', ssh_user)],
               call_opts = opts'\<rparr> st"
      by (simp add: run)
    then show ?thesis
      by (subst if_P [OF True])
  next
    case False
    from absent [OF False] obtain k where
      "Provider_props merged pve_token pve_url pve_user ssh_pass ssh_user None
         = Inl (missing_required k)" ..
    then have "Provider_internal_init R n opts pve_token pve_url pve_user ssh_pass ssh_user
                 None st = (Inl (missing_required k), st)"
      by (simp add: run)
    then have "\<exists>k. Provider_internal_init R n opts pve_token pve_url pve_user ssh_pass
                 ssh_user None st = (Inl (missing_required k), st)" ..
    then show ?thesis
      by (subst if_not_P [OF False])
  qed
  show ?thesis
    unfolding Let_def
    by (intro conjI allI) (rule outcome secret_keys keys wrapped)+
qed

theorem Provider_create_wraps_secrets_witness:
  "Provider_internal_init sdk_runtime ''a'' PyNone (Some (Plain (PyStr ''token'')))
     (Some (Plain (PyStr ''https://pve:8006''))) (Some (Plain (PyStr ''root@pam'')))
     (Some (Plain (PyStr ''pw''))) (Some (Plain (PyStr ''admin''))) None []
     = (let c = \<lparr>call_type = ''pve'', call_name = ''a'',
                 call_props = Some
                   [(''pve_token'', Some (Secret (PyStr ''token''))),
                    (''pve_url'', Some (Plain (PyStr ''https://pve:8006''))),
                    (''pve_user'', Some (Plain (PyStr ''root@pam''))),
                    (''ssh_pass'', Some (Secret (PyStr ''pw''))),
                    (''ssh_user'', Some (Plain (PyStr ''admin'')))],
                 call_opts = PyOpts
                   \<lparr>id_opt = None, urn = None,
                    additional_secret_outputs = Some [''pveToken'', ''sshPass''],
                    version = Some ''0.0.1'', plugin_download_url = None\<rparr>\<rparr>
        in (Inr c, [c]))"
  using Provider_create_wraps_secrets
    [OF sdk_merge_defaults_None _ _ sdk_merge_secret_opts, where n = "''a''" and st = "[]"
      and pve_token = "Some (Plain (PyStr ''token''))"
      and pve_url = "Some (Plain (PyStr ''https://pve:8006''))"
      and pve_user = "Some (Plain (PyStr ''root@pam''))"
      and ssh_pass = "Some (Plain (PyStr ''pw''))"
      and ssh_user = "Some (Plain (PyStr ''admin''))"]
  by (simp add: merge_options_def ResourceOptions_def secret_opts_def sdk_register Let_def)

text \<open>
  C10, as the code has it. Lines 150 to 156 stand after the \<open>if opts.id is None\<close>
  block, so they run on every path that reaches the registration call: with an id
  (lookup), with a urn, and on the create path. On each of them the options handed to
  the host are the merge of the checked options with \<open>secret_opts\<close>, whose
  \<open>additional_secret_outputs\<close> is exactly \<open>pveToken\<close> and \<open>sshPass\<close>. The SDK's merge
  appends: the forwarded list is the entries the options already had, followed by
  these two. It always contains both names, and it is exactly the two when the
  options had no entry of their own.
\<close>

theorem secret_outputs_attached_on_every_path:
  assumes merged: "ResourceOptions_merge R (get_resource_opts_defaults R) opts = Inr (PyOpts merged)"
    and merge2: "ResourceOptions_merge R (PyOpts merged) (PyOpts secret_opts) = Inr opts'"
  shows
    "additional_secret_outputs secret_opts = Some [''pveToken'', ''sshPass'']
     \<and> (case Provider_props merged pve_token pve_url pve_user ssh_pass ssh_user props of
          Inl e \<Rightarrow>
            Provider_internal_init R n opts pve_token pve_url pve_user ssh_pass ssh_user props st
              = (Inl e, st)
        | Inr props' \<Rightarrow>
            Provider_internal_init R n opts pve_token pve_url pve_user ssh_pass ssh_user props st
              = register_resource R
                  \<lparr>call_type = ''pve'', call_name = n, call_props = props',
                   call_opts = opts'\<rparr> st)
     \<and> (id_opt merged \<noteq> None \<longrightarrow>
          Provider_props merged pve_token pve_url pve_user ssh_pass ssh_user props = Inr props)
     \<and> (id_opt merged = None \<and> truthy (urn merged) \<longrightarrow>
          Provider_props merged pve_token pve_url pve_user ssh_pass ssh_user None
            = Inr (Some [(''pve_token'', map_option Output_secret pve_token),
                         (''pve_url'', pve_url), (''pve_user'', pve_user),
                         (''ssh_pass'', map_option Output_secret ssh_pass),
                         (''ssh_user'', ssh_user)]))
     \<and> (id_opt merged = None \<longrightarrow>
          Provider_props merged (Some t) (Some u) (Some us) (Some sp) (Some su) None
            = Inr (Some [(''pve_token'', Some (Output_secret t)), (''pve_url'', Some u),
                         (''pve_user'', Some us), (''ssh_pass'', Some (Output_secret sp)),
                         (''ssh_user'', Some su)]))
     \<and> (ResourceOptions_merge R = sdk_merge \<longrightarrow>
          opts' = PyOpts (merge_options merged secret_opts)
          \<and> additional_secret_outputs (merge_options merged secret_opts)
              = Some ((case additional_secret_outputs merged of None \<Rightarrow> [] | Some own \<Rightarrow> own)
                      @ [''pveToken'', ''sshPass''])
          \<and> (additional_secret_outputs (merge_options merged secret_opts)
                = Some [''pveToken'', ''sshPass'']
              \<longleftrightarrow> additional_secret_outputs merged = None
                  \<or> additional_secret_outputs merged = Some []))"
proof -
  have names: "additional_secret_outputs secret_opts = Some [''pveToken'', ''sshPass'']"
    by (simp add: secret_opts_def ResourceOptions_def)
  have run:
    "case Provider_props merged pve_token pve_url pve_user ssh_pass ssh_user props of
          Inl e \<Rightarrow>
            Provider_internal_init R n opts pve_token pve_url pve_user ssh_pass ssh_user props st
              = (Inl e, st)
        | Inr props' \<Rightarrow>
            Provider_internal_init R n opts pve_token pve_url pve_user ssh_pass ssh_user props st
              = register_resource R
                  \<lparr>call_type = ''pve'', call_name = n, call_props = props',
                   call_opts = opts'\<rparr> st"
    using merged merge2 by (simp add: Provider_internal_init_def split: sum.splits)
  have lookup: "id_opt merged \<noteq> None \<longrightarrow>
      Provider_props merged pve_token pve_url pve_user ssh_pass ssh_user props = Inr props"
    by (simp add: Provider_props_def)
  have by_urn: "id_opt merged = None \<and> truthy (urn merged) \<longrightarrow>
      Provider_props merged pve_token pve_url pve_user ssh_pass ssh_user None
        = Inr (Some [(''pve_token'', map_option Output_secret pve_token),
                     (''pve_url'', pve_url), (''pve_user'', pve_user),
                     (''ssh_pass'', map_option Output_secret ssh_pass),
                     (''ssh_user'', ssh_user)])"
    by (simp add: Provider_props_def)
  have create: "id_opt merged = None \<longrightarrow>
      Provider_props merged (Some t) (Some u) (Some us) (Some sp) (Some su) None
        = Inr (Some [(''pve_token'', Some (Output_secret t)), (''pve_url'', Some u),
                     (''pve_user'', Some us), (''ssh_pass'', Some (Output_secret sp)),
                     (''ssh_user'', Some su)])"
    by (simp add: Provider_props_def)
  have appended: "additional_secret_outputs (merge_options merged secret_opts)
      = Some ((case additional_secret_outputs merged of None \<Rightarrow> [] | Some own \<Rightarrow> own)
              @ [''pveToken'', ''sshPass''])"
    using names by (cases "additional_secret_outputs merged") (simp_all add: merge_options_def)
  have exact: "additional_secret_outputs (merge_options merged secret_opts)
        = Some [''pveToken'', ''sshPass'']
      \<longleftrightarrow> additional_secret_outputs merged = None \<or> additional_secret_outputs merged = Some []"
    unfolding appended by (cases "additional_secret_outputs merged") simp_all
  have forwarded: "opts' = PyOpts (merge_options merged secret_opts)"
    if "ResourceOptions_merge R = sdk_merge"
    using merge2 that by (simp add: sdk_merge_def)
  have sdk: "ResourceOptions_merge R = sdk_merge \<longrightarrow>
      opts' = PyOpts (merge_options merged secret_opts)
      \<and> additional_secret_outputs (merge_options merged secret_opts)
          = Some ((case additional_secret_outputs merged of None \<Rightarrow> [] | Some own \<Rightarrow> own)
                  @ [''pveToken'', ''sshPass''])
      \<and> (additional_secret_outputs (merge_options merged secret_opts)
            = Some [''pveToken'', ''sshPass'']
          \<longleftrightarrow> additional_secret_outputs merged = None
              \<or> additional_secret_outputs merged = Some [])"
    using forwarded appended exact by (intro impI conjI)
  show ?thesis
    by (intro conjI) (rule names run lookup by_urn create sdk)+
qed

theorem secret_outputs_attached_on_every_path_witness:
  "snd (Provider_internal_init sdk_runtime ''a''
      (PyOpts (ResourceOptions\<lparr>id_opt := Some ''pve-1''\<rparr>))
      None None None None None None [])
     = [\<lparr>call_type = ''pve'', call_name = ''a'', call_props = None,
         call_opts = PyOpts
           \<lparr>id_opt = Some ''pve-1'', urn = None,
            additional_secret_outputs = Some [''pveToken'', ''sshPass''],
            version = Some ''0.0.1'', plugin_download_url = None\<rparr>\<rparr>]"
  using secret_outputs_attached_on_every_path
    [OF sdk_merge_defaults_opts
          [where given = "ResourceOptions\<lparr>id_opt := Some ''pve-1''\<rparr>"]
        sdk_merge_secret_opts, where n = "''a''" and st = "[]"
      and pve_token = None and pve_url = None and pve_user = None and ssh_pass = None
      and ssh_user = None and props = None]
  by (simp add: merge_options_def ResourceOptions_def secret_opts_def sdk_register
      Provider_props_def)

text \<open>
  C10, as the claim states it, fails: when the caller's options name a secret output of
  their own, the list handed to the host holds that entry too, so it is not exactly
  \<open>pveToken\<close> and \<open>sshPass\<close>.
\<close>

theorem caller_secret_outputs_are_kept:
  "snd (Provider_internal_init sdk_runtime ''a''
      (PyOpts (ResourceOptions\<lparr>additional_secret_outputs := Some [''extra'']\<rparr>))
      (Some (Plain (PyStr ''token''))) (Some (Plain (PyStr ''https://pve:8006'')))
      (Some (Plain (PyStr ''root@pam''))) (Some (Plain (PyStr ''pw'')))
      (Some (Plain (PyStr ''admin''))) None [])
     = [\<lparr>call_type = ''pve'', call_name = ''a'',
         call_props = Some
           [(''pve_token'', Some (Secret (PyStr ''token''))),
            (''pve_url'', Some (Plain (PyStr ''https://pve:8006''))),
            (''pve_user'', Some (Plain (PyStr ''root@pam''))),
            (''ssh_pass'', Some (Secret (PyStr ''pw''))),
            (''ssh_user'', Some (Plain (PyStr ''admin'')))],
         call_opts = PyOpts
           \<lparr>id_opt = None, urn = None,
            additional_secret_outputs = Some [''extra'', ''pveToken'', ''sshPass''],
            version = Some ''0.0.1'', plugin_download_url = None\<rparr>\<rparr>]
   \<and> Some [''extra'', ''pveToken'', ''sshPass''] \<noteq> Some [''pveToken'', ''sshPass'']"
  by (simp add: Provider_internal_init_def sdk_runtime_def sdk_merge_def merge_options_def
      ResourceOptions_def secret_opts_def Provider_props_def record_call_def)

text \<open>
  C5. A construction that fails before the registration call fails without the host:
  if the run against the recording host, which accepts every call, ends in an error,
  then that run recorded nothing and the run against any host \<open>R\<close> ends in the same error
  with the host state as it was, for the Provider and for the File. And when the host
  call itself raises no \<open>TypeError\<close>, every run that ends in a \<open>TypeError\<close> leaves the
  host state unchanged.
\<close>

theorem failed_construction_leaves_host_untouched:
  "(fst (Provider_internal_init (recording R) n opts pve_token pve_url pve_user ssh_pass
          ssh_user props log) = Inl e \<longrightarrow>
      Provider_internal_init R n opts pve_token pve_url pve_user ssh_pass ssh_user props st
        = (Inl e, st)
      \<and> snd (Provider_internal_init (recording R) n opts pve_token pve_url pve_user ssh_pass
               ssh_user props log) = log)
   \<and> (fst (File_internal_init (recording R) n opts content_type datastore_id source_raw
            props log) = Inl e \<longrightarrow>
      File_internal_init R n opts content_type datastore_id source_raw props st = (Inl e, st)
      \<and> snd (File_internal_init (recording R) n opts content_type datastore_id source_raw
               props log) = log)
   \<and> ((\<forall>c s m. fst (register_resource R c s) \<noteq> Inl (TypeError m)) \<longrightarrow>
       (fst (Provider_internal_init R n opts pve_token pve_url pve_user ssh_pass ssh_user
               props st) = Inl (TypeError msg) \<longrightarrow>
          snd (Provider_internal_init R n opts pve_token pve_url pve_user ssh_pass ssh_user
                 props st) = st)
       \<and> (fst (File_internal_init R n opts content_type datastore_id source_raw props st)
             = Inl (TypeError msg) \<longrightarrow>
          snd (File_internal_init R n opts content_type datastore_id source_raw props st)
             = st))"
proof -
  have P: "fst (Provider_internal_init (recording R) n opts pve_token pve_url pve_user ssh_pass
          ssh_user props log) = Inl e \<longrightarrow>
      Provider_internal_init R n opts pve_token pve_url pve_user ssh_pass ssh_user props st
        = (Inl e, st)
      \<and> snd (Provider_internal_init (recording R) n opts pve_token pve_url pve_user ssh_pass
               ssh_user props log) = log"
    by (simp add: Provider_internal_init_def recording_def record_call_def
        split: sum.splits pyopts.splits)
  have F: "fst (File_internal_init (recording R) n opts content_type datastore_id source_raw
            props log) = Inl e \<longrightarrow>
      File_internal_init R n opts content_type datastore_id source_raw props st = (Inl e, st)
      \<and> snd (File_internal_init (recording R) n opts content_type datastore_id source_raw
               props log) = log"
    by (simp add: File_internal_init_def recording_def record_call_def
        split: sum.splits pyopts.splits)
  have T: "(fst (Provider_internal_init R n opts pve_token pve_url pve_user ssh_pass ssh_user
               props st) = Inl (TypeError msg) \<longrightarrow>
          snd (Provider_internal_init R n opts pve_token pve_url pve_user ssh_pass ssh_user
                 props st) = st)
       \<and> (fst (File_internal_init R n opts content_type datastore_id source_raw props st)
             = Inl (TypeError msg) \<longrightarrow>
          snd (File_internal_init R n opts content_type datastore_id source_raw props st)
             = st)"
    if quiet: "\<forall>c s m. fst (register_resource R c s) \<noteq> Inl (TypeError m)"
    using quiet
    by (simp add: Provider_internal_init_def File_internal_init_def
        split: sum.splits pyopts.splits)
  show ?thesis
    using P F T by (intro conjI impI) simp_all
qed

theorem failed_construction_leaves_host_untouched_witness:
  "Provider_internal_init sdk_runtime ''b'' PyNone None (Some (Plain (PyStr ''https://pve:8006'')))
     None None None None
     [\<lparr>call_type = ''pve:storage:File'', call_name = ''a'', call_props = None,
       call_opts = PyNone\<rparr>]
     = (Inl (missing_required ''pve_token''),
        [\<lparr>call_type = ''pve:storage:File'', call_name = ''a'', call_props = None,
          call_opts = PyNone\<rparr>])
   \<and> File_internal_init sdk_runtime ''b'' PyNone None None None (Some [])
     [\<lparr>call_type = ''pve:storage:File'', call_name = ''a'', call_props = None,
       call_opts = PyNone\<rparr>]
     = (Inl props_without_id,
        [\<lparr>call_type = ''pve:storage:File'', call_name = ''a'', call_props = None,
          call_opts = PyNone\<rparr>])"
  using failed_construction_leaves_host_untouched
    [where R = sdk_runtime and n = "''b''" and opts = PyNone and log = "[]"
      and e = "missing_required ''pve_token''"
      and pve_token = None and pve_url = "Some (Plain (PyStr ''https://pve:8006''))"
      and pve_user = None and ssh_pass = None and ssh_user = None and props = None
      and st = "[\<lparr>call_type = ''pve:storage:File'', call_name = ''a'', call_props = None,
                 call_opts = PyNone\<rparr>]"]
    failed_construction_leaves_host_untouched
    [where R = sdk_runtime and n = "''b''" and opts = PyNone and log = "[]"
      and e = props_without_id
      and content_type = None and datastore_id = None and source_raw = None
      and props = "Some []"
      and st = "[\<lparr>call_type = ''pve:storage:File'', call_name = ''a'', call_props = None,
                 call_opts = PyNone\<rparr>]"]
  by (simp add: Provider_internal_init_def File_internal_init_def recording_def
      sdk_runtime_def sdk_merge_def merge_options_def ResourceOptions_def Provider_props_def
      File_props_def)

text \<open>
  C6, as the code has it. The bindings test the shape of one value only, the resource
  options. An error of \<open>ResourceOptions.merge\<close>, which is how the SDK's merge answers an
  argument that is not a \<open>ResourceOptions\<close>, ends the construction; and when the merge
  returns something that is not a \<open>ResourceOptions\<close> instance the construction fails with
  the \<open>TypeError\<close> of lines 128 and 129 of provider.py (119 and 120 of file.py). In both
  cases no property has been looked at and the host is not called. Field values are
  not tested against the types the schema declares: with no id, no \<open>__props__\<close> and all
  required fields present, values of every shape reach the registration call,
  \<open>pve_token\<close> and \<open>ssh_pass\<close> wrapped as secrets and every other field as given.
\<close>

theorem only_resource_options_are_checked:
  "(ResourceOptions_merge R (get_resource_opts_defaults R) opts = Inl e \<longrightarrow>
      Provider_internal_init R n opts pve_token pve_url pve_user ssh_pass ssh_user props st
        = (Inl e, st)
      \<and> File_internal_init R n opts content_type datastore_id source_raw props st
        = (Inl e, st))
   \<and> (ResourceOptions_merge R (get_resource_opts_defaults R) opts = Inr other
       \<and> \<not> isinstance_ResourceOptions other \<longrightarrow>
      Provider_internal_init R n opts pve_token pve_url pve_user ssh_pass ssh_user props st
        = (Inl not_resource_options, st)
      \<and> File_internal_init R n opts content_type datastore_id source_raw props st
        = (Inl not_resource_options, st))
   \<and> (ResourceOptions_merge R (get_resource_opts_defaults R) opts = Inr (PyOpts merged)
       \<and> id_opt merged = None
       \<and> ResourceOptions_merge R (PyOpts merged) (PyOpts secret_opts) = Inr opts' \<longrightarrow>
      Provider_internal_init R n opts (Some t) (Some u) (Some us) (Some sp) (Some su) None st
        = register_resource R
            \<lparr>call_type = ''pve'', call_name = n,
             call_props = Some [(''pve_token'', Some (Output_secret t)), (''pve_url'', Some u),
                                (''pve_user'', Some us), (''ssh_pass'', Some (Output_secret sp)),
                                (''ssh_user'', Some su)],
             call_opts = opts'\<rparr> st
      \<and> File_internal_init R n opts (Some ct) (Some ds) (Some sr) None st
        = register_resource R
            \<lparr>call_type = ''pve:storage:File'', call_name = n,
             call_props = Some [(''content_type'', Some ct), (''datastore_id'', Some ds),
                                (''source_raw'', Some sr)],
             call_opts = PyOpts merged\<rparr> st)"
proof -
  have merge_error:
    "Provider_internal_init R n opts pve_token pve_url pve_user ssh_pass ssh_user props st
        = (Inl e, st)
     \<and> File_internal_init R n opts content_type datastore_id source_raw props st
        = (Inl e, st)"
    if "ResourceOptions_merge R (get_resource_opts_defaults R) opts = Inl e"
    using that by (simp add: Provider_internal_init_def File_internal_init_def)
  have guard:
    "Provider_internal_init R n opts pve_token pve_url pve_user ssh_pass ssh_user props st
        = (Inl not_resource_options, st)
     \<and> File_internal_init R n opts content_type datastore_id source_raw props st
        = (Inl not_resource_options, st)"
    if "ResourceOptions_merge R (get_resource_opts_defaults R) opts = Inr other"
      and "\<not> isinstance_ResourceOptions other"
    using that
    by (cases other) (simp_all add: Provider_internal_init_def File_internal_init_def)
  have any_shape:
    "Provider_internal_init R n opts (Some t) (Some u) (Some us) (Some sp) (Some su) None st
        = register_resource R
            \<lparr>call_type = ''pve'', call_name = n,
             call_props = Some [(''pve_token'', Some (Output_secret t)), (''pve_url'', Some u),
                                (''pve_user'', Some us), (''ssh_pass'', Some (Output_secret sp)),
                                (''ssh_user'', Some su)],
             call_opts = opts'\<rparr> st
     \<and> File_internal_init R n opts (Some ct) (Some ds) (Some sr) None st
        = register_resource R
            \<lparr>call_type = ''pve:storage:File'', call_name = n,
             call_props = Some [(''content_type'', Some ct), (''datastore_id'', Some ds),
                                (''source_raw'', Some sr)],
             call_opts = PyOpts merged\<rparr> st"
    if "ResourceOptions_merge R (get_resource_opts_defaults R) opts = Inr (PyOpts merged)"
      and "id_opt merged = None"
      and "ResourceOptions_merge R (PyOpts merged) (PyOpts secret_opts) = Inr opts'"
    using that
    by (simp add: Provider_internal_init_def Provider_props_def File_internal_init_def
        File_props_def)
  show ?thesis
    using merge_error guard any_shape by (intro conjI impI; (elim conjE)?) simp_all
qed

theorem only_resource_options_are_checked_witness:
  "Provider_internal_init sdk_runtime ''a'' (PyOther (PyDict []))
     (Some (Plain (PyStr ''token''))) None None None None None []
     = (Inl (TypeError ''Expected opts2 to be a ResourceOptions instance''), [])
   \<and> File_internal_init
     \<lparr>ResourceOptions_merge = (\<lambda>a b. Inr b), get_resource_opts_defaults = PyNone,
      register_resource = record_call\<rparr>
     ''a'' (PyOther (PyDict [])) (Some (Plain (PyStr ''snippets''))) None None None []
     = (Inl not_resource_options, [])
   \<and> File_internal_init sdk_runtime ''a'' PyNone (Some (Plain (PyInt 7)))
     (Some (Plain (PyBool True))) (Some (Plain (PyStr ''not a dict''))) None []
     = (let c = \<lparr>call_type = ''pve:storage:File'', call_name = ''a'',
                 call_props = Some
                   [(''content_type'', Some (Plain (PyInt 7))),
                    (''datastore_id'', Some (Plain (PyBool True))),
                    (''source_raw'', Some (Plain (PyStr ''not a dict'')))],
                 call_opts = PyOpts
                   \<lparr>id_opt = None, urn = None, additional_secret_outputs = None,
                    version = Some ''0.0.1'', plugin_download_url = None\<rparr>\<rparr>
        in (Inr c, [c]))"
  using only_resource_options_are_checked
    [where R = sdk_runtime and opts = "PyOther (PyDict [])" and n = "''a''" and st = "[]"
      and e = "TypeError ''Expected opts2 to be a ResourceOptions instance''"
      and pve_token = "Some (Plain (PyStr ''token''))" and pve_url = None
      and pve_user = None and ssh_pass = None and ssh_user = None and props = None]
    only_resource_options_are_checked
    [where R = "\<lparr>ResourceOptions_merge = (\<lambda>a b. Inr b), get_resource_opts_defaults = PyNone,
                  register_resource = record_call\<rparr>"
      and opts = "PyOther (PyDict [])" and other = "PyOther (PyDict [])" and n = "''a''"
      and st = "[]" and content_type = "Some (Plain (PyStr ''snippets''))"
      and datastore_id = None and source_raw = None and props = None]
    only_resource_options_are_checked
    [where R = sdk_runtime and opts = PyNone and n = "''a''" and st = "[]"
      and merged = "\<lparr>id_opt = None, urn = None, additional_secret_outputs = None,
                      version = Some ''0.0.1'', plugin_download_url = None\<rparr>"
      and opts' = "PyOpts \<lparr>id_opt = None, urn = None,
                      additional_secret_outputs = Some [''pveToken'', ''sshPass''],
                      version = Some ''0.0.1'', plugin_download_url = None\<rparr>"
      and ct = "Plain (PyInt 7)" and ds = "Plain (PyBool True)"
      and sr = "Plain (PyStr ''not a dict'')"]
  by (simp add: sdk_runtime_def sdk_merge_def merge_options_def ResourceOptions_def
      secret_opts_def record_call_def Let_def)

text \<open>
  C6, as the claim states it, fails: a Provider whose \<open>pve_url\<close>, declared
  \<open>pulumi.Input[str]\<close>, is the integer 8006 is constructed and registered.
\<close>

theorem shape_mismatch_is_registered:
  "\<not> is_str (Plain (PyInt 8006))
   \<and> Provider_internal_init sdk_runtime ''a'' PyNone (Some (Plain (PyStr ''token'')))
       (Some (Plain (PyInt 8006))) (Some (Plain (PyStr ''root@pam'')))
       (Some (Plain (PyStr ''pw''))) (Some (Plain (PyStr ''admin''))) None []
     = (let c = \<lparr>call_type = ''pve'', call_name = ''a'',
                 call_props = Some
                   [(''pve_token'', Some (Secret (PyStr ''token''))),
                    (''pve_url'', Some (Plain (PyInt 8006))),
                    (''pve_user'', Some (Plain (PyStr ''root@pam''))),
                    (''ssh_pass'', Some (Secret (PyStr ''pw''))),
                    (''ssh_user'', Some (Plain (PyStr ''admin'')))],
                 call_opts = PyOpts
                   \<lparr>id_opt = None, urn = None,
                    additional_secret_outputs = Some [''pveToken'', ''sshPass''],
                    version = Some ''0.0.1'', plugin_download_url = None\<rparr>\<rparr>
        in (Inr c, [c]))"
  by (simp add: Provider_internal_init_def sdk_runtime_def sdk_merge_def merge_options_def
      ResourceOptions_def secret_opts_def Provider_props_def record_call_def Let_def)

text \<open>
  C7. \<open>File.get(resource_name, id)\<close> merges the id into the options and constructs the
  File by keyword with a \<open>__props__\<close> bag that binds \<open>content_type\<close>, \<open>datastore_id\<close> and
  \<open>source_raw\<close> to \<open>None\<close>. When the merges carry the id through, the construction takes
  the branch that keeps \<open>__props__\<close>: the registration call is issued with that all-\<open>None\<close>
  bag and the options holding the id, for every name, id and options. No field value
  comes from the caller.
\<close>

theorem File_get_looks_up:
  assumes with_id:
      "ResourceOptions_merge R opts (PyOpts (ResourceOptions\<lparr>id_opt := Some ident\<rparr>)) = Inr opts1"
    and keyword_call:
      "fst (G \<lparr>kw_opts = opts1, kw_content_type = None, kw_datastore_id = None,
               kw_source_raw = None,
               kw_props = Some [(''content_type'', None), (''datastore_id'', None),
                                (''source_raw'', None)]\<rparr>) = None"
    and merged: "ResourceOptions_merge R (get_resource_opts_defaults R) opts1 = Inr (PyOpts merged)"
    and has_id: "id_opt merged \<noteq> None"
  shows
    "File_get G R n ident opts st
       = register_resource R
           \<lparr>call_type = ''pve:storage:File'', call_name = n,
            call_props = Some [(''content_type'', None), (''datastore_id'', None),
                               (''source_raw'', None)],
            call_opts = PyOpts merged\<rparr> st"
proof -
  obtain opts2 where G:
    "G \<lparr>kw_opts = opts1, kw_content_type = None, kw_datastore_id = None,
        kw_source_raw = None,
        kw_props = Some [(''content_type'', None), (''datastore_id'', None),
                         (''source_raw'', None)]\<rparr> = (None, opts2)"
    using keyword_call by (metis prod.collapse)
  have init: "File_internal_init R n opts1 None None None
       (Some [(''content_type'', None), (''datastore_id'', None), (''source_raw'', None)]) st
     = register_resource R
           \<lparr>call_type = ''pve:storage:File'', call_name = n,
            call_props = Some [(''content_type'', None), (''datastore_id'', None),
                               (''source_raw'', None)],
            call_opts = PyOpts merged\<rparr> st"
    using merged has_id by (auto simp add: File_internal_init_def File_props_def)
  show ?thesis
    using with_id G init by (simp add: File_get_def File_init_def)
qed

theorem File_get_looks_up_witness:
  "File_get keyword_args_opts sdk_runtime ''a'' ''local:snippets/a.yaml'' PyNone []
     = (let c = \<lparr>call_type = ''pve:storage:File'', call_name = ''a'',
                 call_props = Some [(''content_type'', None), (''datastore_id'', None),
                                    (''source_raw'', None)],
                 call_opts = PyOpts
                   \<lparr>id_opt = Some ''local:snippets/a.yaml'', urn = None,
                    additional_secret_outputs = None, version = Some ''0.0.1'',
                    plugin_download_url = None\<rparr>\<rparr>
        in (Inr c, [c]))"
  using File_get_looks_up
    [where G = keyword_args_opts and R = sdk_runtime and n = "''a''"
      and ident = "''local:snippets/a.yaml''" and opts = PyNone and st = "[]"
      and ?opts1.0 = "PyOpts (ResourceOptions\<lparr>id_opt := Some ''local:snippets/a.yaml''\<rparr>)"
      and merged = "\<lparr>id_opt = Some ''local:snippets/a.yaml'', urn = None,
                      additional_secret_outputs = None, version = Some ''0.0.1'',
                      plugin_download_url = None\<rparr>"]
  by (simp add: sdk_runtime_def sdk_merge_def merge_options_def ResourceOptions_def
      keyword_args_opts_def record_call_def Let_def)

text \<open>
  C3. A constructed \<open>File\<close> exposes \<open>source_raw\<close>, like its other two properties, through
  a getter only: every member call leaves the object as it was, so the binding has no
  in-place update of \<open>source_raw\<close>. In the reconciliation contract of the spec, a desired
  \<open>source_raw\<close> that differs from the observed one of an existing resource yields Replace,
  not Update.
\<close>

theorem source_raw_change_replaces:
  "snd (File_member_call m self) = self
   \<and> (spec_source_raw desired \<noteq> spec_source_raw observed \<longrightarrow>
        reconcile desired (Some observed) = Replace
        \<and> reconcile desired (Some observed) \<noteq> Update)"
  by (cases m) (simp_all add: reconcile_def)

theorem source_raw_change_replaces_witness:
  "snd (File_member_call Get_source_raw
          [(''source_raw'', Some (Plain (PyDict [(''filename'', PyStr ''a.yaml''),
                                                 (''data'', PyStr ''x'')])))])
     = [(''source_raw'', Some (Plain (PyDict [(''filename'', PyStr ''a.yaml''),
                                              (''data'', PyStr ''x'')])))]
   \<and> reconcile
       \<lparr>spec_content_type = ''snippets'', spec_datastore_id = ''ceph-ha'',
        spec_source_raw = \<lparr>spec_filename = ''a.yaml'', spec_data = ''y''\<rparr>\<rparr>
       (Some \<lparr>spec_content_type = ''snippets'', spec_datastore_id = ''ceph-ha'',
              spec_source_raw = \<lparr>spec_filename = ''a.yaml'', spec_data = ''x''\<rparr>\<rparr>)
     = Replace"
  using source_raw_change_replaces
    [where m = Get_source_raw
      and self = "[(''source_raw'', Some (Plain (PyDict [(''filename'', PyStr ''a.yaml''),
                                                        (''data'', PyStr ''x'')])))]"
      and desired = "\<lparr>spec_content_type = ''snippets'', spec_datastore_id = ''ceph-ha'',
                      spec_source_raw = \<lparr>spec_filename = ''a.yaml'', spec_data = ''y''\<rparr>\<rparr>"
      and observed = "\<lparr>spec_content_type = ''snippets'', spec_datastore_id = ''ceph-ha'',
                       spec_source_raw = \<lparr>spec_filename = ''a.yaml'', spec_data = ''x''\<rparr>\<rparr>"]
  by simp

end
